theory Spec2Isabelle
  imports Main "HOL-Library.Sublist"
begin

section \<open>The Tableau provider: hook and operator\<close>

text \<open>
  The provider consists of \<^verbatim>\<open>tableau_hook.py\<close> (class \<^verbatim>\<open>TableauApiHook\<close>) and
  \<^verbatim>\<open>tableau_operator.py\<close> (class \<^verbatim>\<open>TableauApiOperator\<close>). Both delegate every remote
  operation to collaborators that are not part of the repository: Airflow's connection
  store and the \<^verbatim>\<open>tableauserverclient\<close> objects. The collaborators are a parameter of the
  model (the record \<open>world\<close>): each of their operations either raises or returns. What
  the provider's own code does is embedded as functions that return the outcome
  (\<open>Inl\<close> an exception, \<open>Inr\<close> a value) together with the list of calls and log records
  it made, in order.
\<close>

subsection \<open>Exceptions\<close>

text \<open>
  \<open>AirflowException\<close> is raised by \<^verbatim>\<open>execute\<close> itself. \<open>KeyError\<close>, \<open>IndexError\<close> and
  \<open>AttributeError\<close> are raised by Python for \<^verbatim>\<open>d[k]\<close>, \<^verbatim>\<open>xs[0]\<close> and \<^verbatim>\<open>getattr\<close>.
  \<open>ServerResponseError\<close> (code, message) is the exception class the operator catches;
  \<open>OtherError\<close> stands for every other exception class a collaborator may raise.
\<close>

datatype exn =
    AirflowException string
  | KeyError string
  | IndexError
  | AttributeError string
  | ServerResponseError string string
  | OtherError string

fun is_ServerResponseError :: "exn \<Rightarrow> bool" where
  "is_ServerResponseError (ServerResponseError c m) = True"
| "is_ServerResponseError e = False"

subsection \<open>Calls and log records\<close>

datatype logarg = S string | E exn

datatype event =
    GetConnection string
    \<comment> \<open>\<^verbatim>\<open>self.get_connection(tableau_conn_id)\<close>\<close>
  | ServerInit string
    \<comment> \<open>\<^verbatim>\<open>Server(host, use_server_version=True)\<close>\<close>
  | SignIn string string string
    \<comment> \<open>\<^verbatim>\<open>server.auth.sign_in_with_personal_access_token\<close> (token name, token, site id)\<close>
  | SignOut
    \<comment> \<open>\<^verbatim>\<open>server.auth.sign_out()\<close>\<close>
  | Filter string string string
    \<comment> \<open>\<^verbatim>\<open>getattr(server, resource).filter(project_name=.., name=..)\<close>\<close>
  | Invoke string string string
    \<comment> \<open>\<^verbatim>\<open>getattr(getattr(server, resource), method)(resource_id)\<close>\<close>
  | WaitForJob string
    \<comment> \<open>\<^verbatim>\<open>server.jobs.wait_for_job(job_id)\<close>\<close>
  | LogInfo string "logarg list"
    \<comment> \<open>\<^verbatim>\<open>logging.info(fmt, *args)\<close>\<close>
  | LogError string "logarg list"
    \<comment> \<open>\<^verbatim>\<open>logging.error(fmt, *args)\<close>\<close>

type_synonym 'a outcome = "(exn + 'a) \<times> event list"

subsection \<open>The collaborators\<close>

text \<open>
  A connection record of Airflow: only \<^verbatim>\<open>host\<close> and \<^verbatim>\<open>extra_dejson\<close> are read.
\<close>

record connection =
  host :: string
  extra_dejson :: "string \<rightharpoonup> string"

text \<open>
  An endpoint of the server object (\<^verbatim>\<open>server.workbooks\<close>, \<^verbatim>\<open>server.datasources\<close>).
  \<open>ep_filter\<close> is its \<^verbatim>\<open>filter\<close>: it raises or returns the matching entries in the
  order of the server's answer, each entry given by its \<^verbatim>\<open>id\<close>, the only attribute the
  operator reads. \<open>ep_methods\<close> is attribute lookup on the endpoint: the attribute, when
  present, is called with the resource id and raises or returns an object. The operator
  reads nothing of that object but its attribute \<^verbatim>\<open>id\<close>, so the object is given by
  \<open>Some\<close> of its id, or by \<open>None\<close> when it has no such attribute (as Python's
  \<^verbatim>\<open>None\<close> has not).
\<close>

record endpoint =
  ep_filter :: "string \<Rightarrow> string \<Rightarrow> exn + string list"
  ep_methods :: "string \<rightharpoonup> (string \<Rightarrow> exn + string option)"

text \<open>
  One execution calls each collaborator operation at most once, so an operation's
  behaviour is given by its outcome as a function of its arguments.
\<close>

record world =
  get_connection :: "string \<Rightarrow> exn + connection"
  Server :: "string \<Rightarrow> exn option"
  sign_in_with_personal_access_token :: "string \<Rightarrow> string \<Rightarrow> string \<Rightarrow> exn option"
  sign_out :: "exn option"
  endpoints :: "string \<rightharpoonup> endpoint"
  jobs_wait_for_job :: "string \<Rightarrow> exn option"

subsection \<open>\<^verbatim>\<open>tableau_hook.py\<close>\<close>

record TableauApiHook =
  hook_conn_id :: string
  hook_conn :: connection
  hook_site_id :: string

text \<open>\<^verbatim>\<open>a or b\<close> for an optional string \<^verbatim>\<open>a\<close>: \<^verbatim>\<open>None\<close> and the empty string are falsy.\<close>

fun py_or :: "string option \<Rightarrow> string \<Rightarrow> string" where
  "py_or None b = b"
| "py_or (Some a) b = (if a = [] then b else a)"

text \<open>\<^verbatim>\<open>d.get(k, default)\<close>\<close>

definition dict_get :: "(string \<rightharpoonup> string) \<Rightarrow> string \<Rightarrow> string \<Rightarrow> string" where
  "dict_get d k dflt = (case d k of None \<Rightarrow> dflt | Some v \<Rightarrow> v)"

text \<open>\<^verbatim>\<open>TableauApiHook.__init__\<close> (lines 30 to 42).\<close>

definition hook_init :: "world \<Rightarrow> string option \<Rightarrow> string \<Rightarrow> TableauApiHook outcome" where
  "hook_init w site_id_arg tableau_conn_id_arg =
     (case get_connection w tableau_conn_id_arg of
        Inl e \<Rightarrow> (Inl e, [GetConnection tableau_conn_id_arg])
      | Inr c \<Rightarrow>
          (case Server w (host c) of
             Some e \<Rightarrow> (Inl e, [GetConnection tableau_conn_id_arg, ServerInit (host c)])
           | None \<Rightarrow>
               (Inr \<lparr>hook_conn_id = tableau_conn_id_arg,
                     hook_conn = c,
                     hook_site_id = py_or site_id_arg (dict_get (extra_dejson c) ''site_id'' [])\<rparr>,
                [GetConnection tableau_conn_id_arg, ServerInit (host c)])))"

text \<open>
  \<^verbatim>\<open>TableauApiHook.get_conn\<close> (lines 54 to 67). The arguments of
  \<^verbatim>\<open>PersonalAccessTokenAuth\<close> are evaluated left to right, so a missing \<^verbatim>\<open>token_name\<close>
  raises first; the sign-in call comes after both lookups.
\<close>

definition get_conn :: "world \<Rightarrow> TableauApiHook \<Rightarrow> unit outcome" where
  "get_conn w h =
     (case extra_dejson (hook_conn h) ''token_name'' of
        None \<Rightarrow> (Inl (KeyError ''token_name''), [])
      | Some token_name \<Rightarrow>
          (case extra_dejson (hook_conn h) ''personal_access_token'' of
             None \<Rightarrow> (Inl (KeyError ''personal_access_token''), [])
           | Some token \<Rightarrow>
               (case sign_in_with_personal_access_token w token_name token (hook_site_id h) of
                  Some e \<Rightarrow> (Inl e, [SignIn token_name token (hook_site_id h)])
                | None \<Rightarrow> (Inr (), [SignIn token_name token (hook_site_id h)]))))"

text \<open>\<^verbatim>\<open>TableauApiHook.__enter__\<close> (lines 44 to 48): sign in, return the hook.\<close>

definition hook_enter :: "world \<Rightarrow> TableauApiHook \<Rightarrow> TableauApiHook outcome" where
  "hook_enter w h =
     (case get_conn w h of
        (Inl e, t) \<Rightarrow> (Inl e, t)
      | (Inr u, t) \<Rightarrow> (Inr h, t))"

text \<open>
  \<^verbatim>\<open>TableauApiHook.__exit__\<close> (lines 50 to 52): sign out. It returns \<^verbatim>\<open>None\<close>, so an
  exception of the body is not suppressed; an exception of the sign-out itself replaces it.
\<close>

definition hook_exit :: "world \<Rightarrow> exn option \<times> event list" where
  "hook_exit w = (sign_out w, [SignOut])"

text \<open>
  The head of the \<^verbatim>\<open>with\<close> statement: the expression \<^verbatim>\<open>TableauApiHook(site_id, conn_id)\<close>
  is evaluated, then \<^verbatim>\<open>__enter__\<close> is called on it.
\<close>

definition open_session :: "world \<Rightarrow> string option \<Rightarrow> string \<Rightarrow> TableauApiHook outcome" where
  "open_session w site_id_arg tableau_conn_id_arg =
     (case hook_init w site_id_arg tableau_conn_id_arg of
        (Inl e, t0) \<Rightarrow> (Inl e, t0)
      | (Inr h, t0) \<Rightarrow>
          (case hook_enter w h of
             (Inl e, t1) \<Rightarrow> (Inl e, t0 @ t1)
           | (Inr h', t1) \<Rightarrow> (Inr h', t0 @ t1)))"

subsection \<open>\<^verbatim>\<open>tableau_operator.py\<close>\<close>

text \<open>The module-level dictionary, in insertion order.\<close>

definition available_resources :: "(string \<times> string) list" where
  "available_resources = [(''datasources'', ''refresh''), (''workbooks'', ''refresh'')]"

record TableauApiOperator =
  resource :: string
  "method" :: string
  resource_name :: string
  project_name :: string
  site_id :: "string option"
  blocking_refresh :: bool
  tableau_conn_id :: string

text \<open>
  \<^verbatim>\<open>sub in s\<close> for two Python strings: \<^verbatim>\<open>sub\<close> occurs in \<^verbatim>\<open>s\<close> as a contiguous run of
  characters (the empty string occurs in every string).
\<close>

fun str_contains :: "string \<Rightarrow> string \<Rightarrow> bool" where
  "str_contains [] sub = (sub = [])"
| "str_contains (c # cs) sub = (prefix sub (c # cs) \<or> str_contains cs sub)"

text \<open>
  \<^verbatim>\<open>repr\<close> of a string without quotes, backslashes or control characters, and of a
  dictionary of such strings, as an f-string inserts it.
\<close>

definition repr_str :: "string \<Rightarrow> string" where
  "repr_str s = [CHR 0x27] @ s @ [CHR 0x27]"

fun join :: "string \<Rightarrow> string list \<Rightarrow> string" where
  "join sep [] = []"
| "join sep [x] = x"
| "join sep (x # y # ys) = x @ sep @ join sep (y # ys)"

definition repr_dict :: "(string \<times> string) list \<Rightarrow> string" where
  "repr_dict d = ''{'' @ join '', '' (map (\<lambda>(k, v). repr_str k @ '': '' @ repr_str v) d) @ ''}''"

text \<open>
  The two checks at the head of \<^verbatim>\<open>execute\<close> (lines 100 to 114): \<open>None\<close> when both pass,
  the exception raised otherwise. \<^verbatim>\<open>self.resource not in available_resources\<close> tests the
  keys of the dictionary; \<^verbatim>\<open>self.method not in available_methods\<close> tests a string
  against the string stored under the key.
\<close>

definition check_resource_and_method :: "TableauApiOperator \<Rightarrow> exn option" where
  "check_resource_and_method op =
     (case map_of available_resources (resource op) of
        None \<Rightarrow>
          Some (AirflowException
            (''Resource not found! '' @ ''Available Resources: '' @ repr_dict available_resources))
      | Some available_methods \<Rightarrow>
          if \<not> str_contains available_methods (method op) then
            Some (AirflowException
              (''Method not found! '' @ ''Available methods for '' @ resource op @ '': ''
                 @ available_methods))
          else None)"

text \<open>\<^verbatim>\<open>TableauApiOperator.get_resource_id\<close> (lines 63 to 89).\<close>

definition get_resource_id ::
  "world \<Rightarrow> TableauApiOperator \<Rightarrow> TableauApiHook \<Rightarrow> string \<Rightarrow> string \<Rightarrow> string outcome" where
  "get_resource_id w op tableau_hook project_name_arg resource_name_arg =
     (case endpoints w (resource op) of
        None \<Rightarrow> (Inl (AttributeError (resource op)), [])
      | Some ep \<Rightarrow>
          (case ep_filter ep project_name_arg resource_name_arg of
             Inl e \<Rightarrow> (Inl e, [Filter (resource op) project_name_arg resource_name_arg])
           | Inr get_resource \<Rightarrow>
               (case get_resource of
                  [] \<Rightarrow> (Inl IndexError, [Filter (resource op) project_name_arg resource_name_arg])
                | resource_id # rest \<Rightarrow>
                    (Inr resource_id,
                     [Filter (resource op) project_name_arg resource_name_arg,
                      LogInfo ''Here is the resource id for the %s specified: %s''
                        [S (resource op), S resource_id]]))))"

text \<open>
  The \<^verbatim>\<open>try\<close> statement of \<^verbatim>\<open>execute\<close> (lines 125 to 141): look the method up, call it
  on the resource id, log that the refresh has been triggered, then read \<^verbatim>\<open>job.id\<close>,
  which raises \<^verbatim>\<open>AttributeError\<close> when the object returned has no \<^verbatim>\<open>id\<close>. Only a
  \<^verbatim>\<open>ServerResponseError\<close> is caught: it is logged and raised again.
\<close>

definition trigger :: "world \<Rightarrow> TableauApiOperator \<Rightarrow> string \<Rightarrow> string outcome" where
  "trigger w op resource_id =
     (case endpoints w (resource op) of
        None \<Rightarrow> (Inl (AttributeError (resource op)), [])
      | Some ep \<Rightarrow>
          (case ep_methods ep (method op) of
             None \<Rightarrow> (Inl (AttributeError (method op)), [])
           | Some m \<Rightarrow>
               (case m resource_id of
                  Inl e \<Rightarrow>
                    (Inl e,
                     if is_ServerResponseError e
                     then [Invoke (resource op) (method op) resource_id,
                           LogError ''Refresh failed! %s'' [E e]]
                     else [Invoke (resource op) (method op) resource_id])
                | Inr job \<Rightarrow>
                    (case job of
                       None \<Rightarrow>
                         (Inl (AttributeError ''id''),
                          [Invoke (resource op) (method op) resource_id,
                           LogInfo (CHR 0x0A # ''The refresh of %s: %s has been triggered.'')
                             [S (resource op), S resource_id]])
                     | Some job_id \<Rightarrow>
                         (Inr job_id,
                          [Invoke (resource op) (method op) resource_id,
                           LogInfo (CHR 0x0A # ''The refresh of %s: %s has been triggered.'')
                             [S (resource op), S resource_id]])))))"

text \<open>\<^verbatim>\<open>TableauApiOperator.wait_for_job\<close> (lines 149 to 174).\<close>

definition wait_for_job :: "world \<Rightarrow> TableauApiHook \<Rightarrow> string \<Rightarrow> unit outcome" where
  "wait_for_job w tableau_hook job_id =
     (case jobs_wait_for_job w job_id of
        None \<Rightarrow>
          (Inr (),
           [LogInfo ''Waiting for job...'' [], WaitForJob job_id,
            LogInfo ''Job finished succesfully'' []])
      | Some e \<Rightarrow>
          (Inl e,
           if is_ServerResponseError e
           then [LogInfo ''Waiting for job...'' [], WaitForJob job_id,
                 LogError ''Job failed! %s'' [E e]]
           else [LogInfo ''Waiting for job...'' [], WaitForJob job_id]))"

text \<open>
  The part of the block that follows the lookup (lines 125 to 145): trigger the action on
  the resource id, then wait for the job when the method is \<^verbatim>\<open>"refresh"\<close> and
  \<^verbatim>\<open>blocking_refresh\<close> is set.
\<close>

definition act_on_resource ::
  "world \<Rightarrow> TableauApiOperator \<Rightarrow> TableauApiHook \<Rightarrow> string \<Rightarrow> string outcome" where
  "act_on_resource w op tableau_hook resource_id =
     (case trigger w op resource_id of
        (Inl e, t2) \<Rightarrow> (Inl e, t2)
      | (Inr job_id, t2) \<Rightarrow>
          if method op = ''refresh'' \<and> blocking_refresh op then
            (case wait_for_job w tableau_hook job_id of
               (Inl e, t3) \<Rightarrow> (Inl e, t2 @ t3)
             | (Inr u, t3) \<Rightarrow> (Inr job_id, t2 @ t3))
          else (Inr job_id, t2))"

text \<open>The block of the \<^verbatim>\<open>with\<close> statement (lines 119 to 145).\<close>

definition with_body :: "world \<Rightarrow> TableauApiOperator \<Rightarrow> TableauApiHook \<Rightarrow> string outcome" where
  "with_body w op tableau_hook =
     (case get_resource_id w op tableau_hook (project_name op) (resource_name op) of
        (Inl e, t1) \<Rightarrow> (Inl e, t1)
      | (Inr resource_id, t1) \<Rightarrow>
          (case act_on_resource w op tableau_hook resource_id of
             (r, t2) \<Rightarrow> (r, t1 @ t2)))"

text \<open>
  \<^verbatim>\<open>TableauApiOperator.execute\<close> (lines 91 to 147). Once \<^verbatim>\<open>__enter__\<close> has returned,
  \<^verbatim>\<open>__exit__\<close> runs on every way out of the block.
\<close>

definition execute :: "world \<Rightarrow> TableauApiOperator \<Rightarrow> string outcome" where
  "execute w op =
     (case check_resource_and_method op of
        Some e \<Rightarrow> (Inl e, [])
      | None \<Rightarrow>
          (case open_session w (site_id op) (tableau_conn_id op) of
             (Inl e, t0) \<Rightarrow> (Inl e, t0)
           | (Inr tableau_hook, t0) \<Rightarrow>
               (case with_body w op tableau_hook of
                  (r, t1) \<Rightarrow>
                    (case hook_exit w of
                       (Some e, t2) \<Rightarrow> (Inl e, t0 @ t1 @ t2)
                     | (None, t2) \<Rightarrow> (r, t0 @ t1 @ t2)))))"

subsection \<open>A concrete server for the examples\<close>

text \<open>
  A connection with both credential fields; a server whose two endpoints answer every
  directory query with the entries \<open>ids\<close> and offer one method, \<^verbatim>\<open>refresh\<close>, with
  outcome \<open>job\<close>; \<open>waited\<close> is the outcome of waiting for a job.
\<close>

definition demo_conn :: connection where
  "demo_conn =
     \<lparr>host = ''tableau.example'',
      extra_dejson = [''token_name'' \<mapsto> ''airflow'', ''personal_access_token'' \<mapsto> ''secret'']\<rparr>"

definition demo_endpoint :: "string list \<Rightarrow> exn + string option \<Rightarrow> endpoint" where
  "demo_endpoint ids job =
     \<lparr>ep_filter = (\<lambda>p n. Inr ids), ep_methods = [''refresh'' \<mapsto> (\<lambda>i. job)]\<rparr>"

definition demo_world ::
  "connection \<Rightarrow> string list \<Rightarrow> exn + string option \<Rightarrow> exn option \<Rightarrow> world" where
  "demo_world c ids job waited =
     \<lparr>get_connection = (\<lambda>i. Inr c),
      Server = (\<lambda>h. None),
      sign_in_with_personal_access_token = (\<lambda>n t s. None),
      sign_out = None,
      endpoints = [''workbooks'' \<mapsto> demo_endpoint ids job,
                   ''datasources'' \<mapsto> demo_endpoint ids job],
      jobs_wait_for_job = (\<lambda>j. waited)\<rparr>"

definition demo_op :: "string \<Rightarrow> string \<Rightarrow> bool \<Rightarrow> TableauApiOperator" where
  "demo_op r m b =
     \<lparr>resource = r, method = m, resource_name = ''Q1'', project_name = ''Sales'',
      site_id = None, blocking_refresh = b, tableau_conn_id = ''tableau_default''\<rparr>"

definition demo_hook :: TableauApiHook where
  "demo_hook = \<lparr>hook_conn_id = ''tableau_default'', hook_conn = demo_conn, hook_site_id = []\<rparr>"

definition demo_opened :: "event list" where
  "demo_opened =
     [GetConnection ''tableau_default'', ServerInit ''tableau.example'',
      SignIn ''airflow'' ''secret'' []]"

section \<open>Properties\<close>

subsection \<open>Evaluation and the events of each part\<close>

lemmas demo_defs = demo_conn_def demo_endpoint_def demo_world_def demo_op_def demo_hook_def
  demo_opened_def

lemmas model_defs = execute_def check_resource_and_method_def available_resources_def
  open_session_def hook_init_def hook_enter_def get_conn_def hook_exit_def dict_get_def
  with_body_def get_resource_id_def act_on_resource_def trigger_def wait_for_job_def

lemma hook_init_trace:
  "hook_init w s c = (r, t) \<Longrightarrow> SignOut \<notin> set t \<and> (\<forall>j. WaitForJob j \<notin> set t)"
  by (auto simp add: hook_init_def split: sum.splits option.splits)

lemma get_conn_trace:
  "get_conn w h = (r, t) \<Longrightarrow> SignOut \<notin> set t \<and> (\<forall>j. WaitForJob j \<notin> set t)"
  by (auto simp add: get_conn_def split: option.splits)

lemma hook_enter_trace:
  "hook_enter w h = (r, t) \<Longrightarrow> SignOut \<notin> set t \<and> (\<forall>j. WaitForJob j \<notin> set t)"
  by (auto simp add: hook_enter_def split: prod.splits sum.splits dest: get_conn_trace)

lemma open_session_trace:
  "open_session w s c = (r, t) \<Longrightarrow> SignOut \<notin> set t \<and> (\<forall>j. WaitForJob j \<notin> set t)"
  using hook_init_trace [of w s c] hook_enter_trace [of w]
  by (fastforce simp add: open_session_def split: prod.splits sum.splits)

lemma get_resource_id_trace:
  "get_resource_id w op h p n = (r, t) \<Longrightarrow> SignOut \<notin> set t \<and> (\<forall>j. WaitForJob j \<notin> set t)"
  by (auto simp add: get_resource_id_def split: option.splits sum.splits list.splits)

lemma trigger_trace:
  "trigger w op i = (r, t) \<Longrightarrow> SignOut \<notin> set t \<and> (\<forall>j. WaitForJob j \<notin> set t)"
  by (auto simp add: trigger_def split: option.splits sum.splits if_splits)

lemma wait_for_job_trace:
  "wait_for_job w h j = (r, t) \<Longrightarrow> SignOut \<notin> set t"
  by (auto simp add: wait_for_job_def split: option.splits if_splits)

lemma act_on_resource_trace:
  "act_on_resource w op h i = (r, t) \<Longrightarrow> SignOut \<notin> set t"
  by (auto simp add: act_on_resource_def split: prod.splits sum.splits if_splits
      dest: trigger_trace wait_for_job_trace)

lemma with_body_trace:
  "with_body w op h = (r, t) \<Longrightarrow> SignOut \<notin> set t"
  by (auto simp add: with_body_def split: prod.splits sum.splits if_splits
      dest: get_resource_id_trace act_on_resource_trace)

lemma execute_in_session:
  assumes "check_resource_and_method op = None"
      and "open_session w (site_id op) (tableau_conn_id op) = (Inr h, t0)"
  shows "execute w op =
           ((case sign_out w of Some e \<Rightarrow> Inl e | None \<Rightarrow> fst (with_body w op h)),
            t0 @ snd (with_body w op h) @ [SignOut])"
  using assms
  by (simp add: execute_def hook_exit_def split: prod.splits option.splits)

lemma demo_check: "check_resource_and_method (demo_op ''workbooks'' ''refresh'' b) = None"
  by (simp add: check_resource_and_method_def available_resources_def demo_op_def)

lemma demo_open_session:
  "open_session (demo_world demo_conn ids job waited) None ''tableau_default''
     = (Inr demo_hook, demo_opened)"
  by (simp add: open_session_def hook_init_def hook_enter_def get_conn_def dict_get_def demo_defs)

subsection \<open>The session is closed exactly once\<close>

text \<open>
  C1. Whenever \<^verbatim>\<open>execute\<close> has opened a session (the checks passed, the hook was built
  and \<^verbatim>\<open>__enter__\<close> returned), the sign-out is called exactly once, whatever the block
  did: returned, or raised in the lookup, in the trigger or while waiting for the job.
\<close>

theorem session_closed_exactly_once:
  assumes "check_resource_and_method op = None"
      and "open_session w (site_id op) (tableau_conn_id op) = (Inr h, t0)"
  shows "count_list (snd (execute w op)) SignOut = 1"
proof -
  have a: "SignOut \<notin> set t0"
    using open_session_trace [OF assms(2)] by simp
  have b: "SignOut \<notin> set (snd (with_body w op h))"
    by (rule with_body_trace [of w op h "fst (with_body w op h)"]) simp
  show ?thesis
    using a b by (simp add: execute_in_session [OF assms] count_list_0_iff)
qed

theorem session_closed_exactly_once_witness:
  "check_resource_and_method (demo_op ''workbooks'' ''refresh'' True) = None
   \<and> open_session (demo_world demo_conn [''wb-1''] (Inr (Some ''job-9'')) (Some (OtherError ''job failed'')))
        (site_id (demo_op ''workbooks'' ''refresh'' True))
        (tableau_conn_id (demo_op ''workbooks'' ''refresh'' True)) = (Inr demo_hook, demo_opened)
   \<and> fst (execute (demo_world demo_conn [''wb-1''] (Inr (Some ''job-9'')) (Some (OtherError ''job failed'')))
        (demo_op ''workbooks'' ''refresh'' True)) = Inl (OtherError ''job failed'')
   \<and> count_list (snd (execute (demo_world demo_conn [''wb-1''] (Inr (Some ''job-9''))
        (Some (OtherError ''job failed''))) (demo_op ''workbooks'' ''refresh'' True))) SignOut = 1"
proof -
  let ?w = "demo_world demo_conn [''wb-1''] (Inr (Some ''job-9'')) (Some (OtherError ''job failed''))"
  let ?op = "demo_op ''workbooks'' ''refresh'' True"
  have c: "check_resource_and_method ?op = None"
    by (rule demo_check)
  have o: "open_session ?w (site_id ?op) (tableau_conn_id ?op) = (Inr demo_hook, demo_opened)"
    using demo_open_session by (simp add: demo_op_def)
  have r: "fst (execute ?w ?op) = Inl (OtherError ''job failed'')"
    by (simp add: model_defs demo_defs)
  show ?thesis
    using c o r session_closed_exactly_once [OF c o] by simp
qed

subsection \<open>Steps of the block\<close>

lemma get_resource_id_first:
  assumes "endpoints w (resource op) = Some ep"
      and "ep_filter ep p n = Inr (i # rest)"
  shows "get_resource_id w op h p n =
           (Inr i, [Filter (resource op) p n,
                    LogInfo ''Here is the resource id for the %s specified: %s''
                      [S (resource op), S i]])"
  using assms by (simp add: get_resource_id_def)

lemma get_resource_id_empty:
  assumes "endpoints w (resource op) = Some ep"
      and "ep_filter ep p n = Inr []"
  shows "get_resource_id w op h p n = (Inl IndexError, [Filter (resource op) p n])"
  using assms by (simp add: get_resource_id_def)

lemma act_on_resource_no_wait:
  assumes "\<not> (method op = ''refresh'' \<and> blocking_refresh op)"
  shows "act_on_resource w op h i = trigger w op i"
  using assms by (auto simp add: act_on_resource_def split: prod.splits sum.splits)

lemma act_on_resource_no_wait_trace:
  assumes "\<not> (method op = ''refresh'' \<and> blocking_refresh op)"
      and "act_on_resource w op h i = (r, t)"
  shows "WaitForJob j \<notin> set t"
  using assms trigger_trace [of w op i r t] by (simp add: act_on_resource_no_wait)

lemma with_body_no_wait_trace:
  assumes "\<not> (method op = ''refresh'' \<and> blocking_refresh op)"
      and "with_body w op h = (r, t)"
  shows "WaitForJob j \<notin> set t"
  using assms(2) get_resource_id_trace [of w op h "project_name op" "resource_name op"]
    act_on_resource_no_wait_trace [OF assms(1), of w h]
  by (fastforce simp add: with_body_def split: prod.splits sum.splits)

lemma execute_no_wait_trace:
  assumes "\<not> (method op = ''refresh'' \<and> blocking_refresh op)"
  shows "WaitForJob j \<notin> set (snd (execute w op))"
proof (cases "check_resource_and_method op")
  case (Some e)
  then show ?thesis by (simp add: execute_def)
next
  case None
  show ?thesis
  proof (cases "open_session w (site_id op) (tableau_conn_id op)")
    case (Pair r t0)
    have t0: "WaitForJob j \<notin> set t0"
      using open_session_trace [OF Pair] by simp
    show ?thesis
    proof (cases r)
      case (Inl e)
      with None Pair t0 show ?thesis by (simp add: execute_def)
    next
      case (Inr h)
      have "WaitForJob j \<notin> set (snd (with_body w op h))"
        by (rule with_body_no_wait_trace [OF assms, of w h "fst (with_body w op h)"]) simp
      with t0 show ?thesis
        using execute_in_session [OF None, of w h t0] Pair Inr by simp
    qed
  qed
qed

text \<open>The string test of Python, as the existence of a prefix and a suffix.\<close>

lemma str_contains_iff:
  "str_contains s sub \<longleftrightarrow> (\<exists>p q. s = p @ sub @ q)"
proof (induction s)
  case Nil
  then show ?case by auto
next
  case (Cons c cs)
  show ?case
  proof
    assume "str_contains (c # cs) sub"
    then consider "prefix sub (c # cs)" | "str_contains cs sub" by auto
    then show "\<exists>p q. c # cs = p @ sub @ q"
    proof cases
      case 1
      then obtain q where "c # cs = sub @ q" by (auto simp: prefix_def)
      then have "c # cs = [] @ sub @ q" by simp
      then show ?thesis by blast
    next
      case 2
      then obtain p q where "cs = p @ sub @ q" using Cons.IH by blast
      then have "c # cs = (c # p) @ sub @ q" by simp
      then show ?thesis by blast
    qed
  next
    assume "\<exists>p q. c # cs = p @ sub @ q"
    then obtain p q where pq: "c # cs = p @ sub @ q" by blast
    show "str_contains (c # cs) sub"
    proof (cases p)
      case Nil
      with pq have "prefix sub (c # cs)" by (simp add: prefix_def)
      then show ?thesis by simp
    next
      case (Cons a p')
      with pq have "cs = p' @ sub @ q" by simp
      then have "str_contains cs sub" using Cons.IH by blast
      then show ?thesis by simp
    qed
  qed
qed

subsection \<open>No match in the directory\<close>

text \<open>
  C2. When the directory query for (project name, resource name) returns no entry,
  \<^verbatim>\<open>execute\<close> fails: indexing the empty answer raises \<^verbatim>\<open>IndexError\<close> (the error the
  specification calls ResourceNotFoundError), nothing is triggered, and the session is
  closed. Should the sign-out itself raise, its exception is the one that leaves
  \<^verbatim>\<open>execute\<close>.
\<close>

theorem no_match_fails:
  assumes "check_resource_and_method op = None"
      and "open_session w (site_id op) (tableau_conn_id op) = (Inr h, t0)"
      and "endpoints w (resource op) = Some ep"
      and "ep_filter ep (project_name op) (resource_name op) = Inr []"
  shows "execute w op =
           (Inl (case sign_out w of None \<Rightarrow> IndexError | Some e \<Rightarrow> e),
            t0 @ [Filter (resource op) (project_name op) (resource_name op), SignOut])"
  using get_resource_id_empty [OF assms(3,4), of h]
  by (simp add: execute_in_session [OF assms(1,2)] with_body_def split: option.splits)

theorem no_match_fails_witness:
  "execute (demo_world demo_conn [] (Inr (Some ''job-9'')) None) (demo_op ''workbooks'' ''refresh'' True) =
     (Inl IndexError, demo_opened @ [Filter ''workbooks'' ''Sales'' ''Q1'', SignOut])"
proof -
  let ?w = "demo_world demo_conn [] (Inr (Some ''job-9'')) None"
  let ?op = "demo_op ''workbooks'' ''refresh'' True"
  have c: "check_resource_and_method ?op = None"
    by (rule demo_check)
  have o: "open_session ?w (site_id ?op) (tableau_conn_id ?op) = (Inr demo_hook, demo_opened)"
    using demo_open_session by (simp add: demo_op_def)
  have e: "endpoints ?w (resource ?op) = Some (demo_endpoint [] (Inr (Some ''job-9'')))"
    by (simp add: demo_world_def demo_op_def)
  have f: "ep_filter (demo_endpoint [] (Inr (Some ''job-9''))) (project_name ?op) (resource_name ?op) = Inr []"
    by (simp add: demo_endpoint_def)
  have s: "sign_out ?w = None"
    by (simp add: demo_world_def)
  show ?thesis
    using no_match_fails [OF c o e f] s by (simp add: demo_op_def)
qed

text \<open>
  C2, as worded, fails when the sign-out raises: the directory has no match, yet the
  exception that leaves \<^verbatim>\<open>execute\<close> is the sign-out's, not the lookup's.
\<close>

theorem no_match_counterexample:
  "ep_filter (demo_endpoint [] (Inr (Some ''job-9''))) ''Sales'' ''Q1'' = Inr []
   \<and> execute
        ((demo_world demo_conn [] (Inr (Some ''job-9'')) None)
           \<lparr>sign_out := Some (OtherError ''sign-out failed'')\<rparr>)
        (demo_op ''workbooks'' ''refresh'' True) =
      (Inl (OtherError ''sign-out failed''),
       demo_opened @ [Filter ''workbooks'' ''Sales'' ''Q1'', SignOut])"
  by (simp add: model_defs demo_defs)

subsection \<open>Returning without waiting\<close>

text \<open>
  C5. With \<^verbatim>\<open>blocking_refresh\<close> false, once the trigger has returned a job, \<^verbatim>\<open>execute\<close>
  leaves the block at once: the only call after the trigger is the sign-out, the job is
  never waited for, and the job id is returned (unless the sign-out itself raises).
\<close>

theorem nonblocking_returns_job_id:
  assumes "check_resource_and_method op = None"
      and "open_session w (site_id op) (tableau_conn_id op) = (Inr h, t0)"
      and "get_resource_id w op h (project_name op) (resource_name op) = (Inr rid, t1)"
      and "trigger w op rid = (Inr jid, t2)"
      and "\<not> blocking_refresh op"
  shows "execute w op =
           ((case sign_out w of None \<Rightarrow> Inr jid | Some e \<Rightarrow> Inl e), t0 @ t1 @ t2 @ [SignOut])
         \<and> (\<forall>j. WaitForJob j \<notin> set (snd (execute w op)))"
proof -
  have a: "act_on_resource w op h rid = (Inr jid, t2)"
    using assms(4,5) by (simp add: act_on_resource_no_wait)
  have b: "with_body w op h = (Inr jid, t1 @ t2)"
    using assms(3) a by (simp add: with_body_def)
  have c: "\<forall>j. WaitForJob j \<notin> set (snd (execute w op))"
    using assms(5) by (simp add: execute_no_wait_trace)
  show ?thesis
    using b c by (simp add: execute_in_session [OF assms(1,2)] split: option.splits)
qed

theorem nonblocking_returns_job_id_witness:
  "execute (demo_world demo_conn [''wb-1''] (Inr (Some ''job-123'')) None)
       (demo_op ''workbooks'' ''refresh'' False) =
     (Inr ''job-123'',
      demo_opened @
      [Filter ''workbooks'' ''Sales'' ''Q1'',
       LogInfo ''Here is the resource id for the %s specified: %s'' [S ''workbooks'', S ''wb-1''],
       Invoke ''workbooks'' ''refresh'' ''wb-1'',
       LogInfo (CHR 0x0A # ''The refresh of %s: %s has been triggered.'')
         [S ''workbooks'', S ''wb-1''],
       SignOut])
   \<and> (\<forall>j. WaitForJob j \<notin> set (snd (execute (demo_world demo_conn [''wb-1''] (Inr (Some ''job-123'')) None)
       (demo_op ''workbooks'' ''refresh'' False))))"
proof -
  let ?w = "demo_world demo_conn [''wb-1''] (Inr (Some ''job-123'')) None"
  let ?op = "demo_op ''workbooks'' ''refresh'' False"
  have c: "check_resource_and_method ?op = None"
    by (rule demo_check)
  have o: "open_session ?w (site_id ?op) (tableau_conn_id ?op) = (Inr demo_hook, demo_opened)"
    using demo_open_session by (simp add: demo_op_def)
  have g: "get_resource_id ?w ?op demo_hook (project_name ?op) (resource_name ?op) =
             (Inr ''wb-1'',
              [Filter ''workbooks'' ''Sales'' ''Q1'',
               LogInfo ''Here is the resource id for the %s specified: %s''
                 [S ''workbooks'', S ''wb-1'']])"
    by (simp add: get_resource_id_def demo_defs)
  have t: "trigger ?w ?op ''wb-1'' =
             (Inr ''job-123'',
              [Invoke ''workbooks'' ''refresh'' ''wb-1'',
               LogInfo (CHR 0x0A # ''The refresh of %s: %s has been triggered.'')
                 [S ''workbooks'', S ''wb-1'']])"
    by (simp add: trigger_def demo_defs)
  have b: "\<not> blocking_refresh ?op"
    by (simp add: demo_op_def)
  have s: "sign_out ?w = None"
    by (simp add: demo_world_def)
  show ?thesis
    using nonblocking_returns_job_id [OF c o g t b] s by (simp add: demo_opened_def)
qed

text \<open>
  C5, as worded, fails when the sign-out raises: the refresh is not blocking and the
  trigger returned the job \<^verbatim>\<open>job-123\<close>, yet \<^verbatim>\<open>execute\<close> does not return it.
\<close>

theorem nonblocking_counterexample:
  "execute
     ((demo_world demo_conn [''wb-1''] (Inr (Some ''job-123'')) None)
        \<lparr>sign_out := Some (OtherError ''sign-out failed'')\<rparr>)
     (demo_op ''workbooks'' ''refresh'' False) =
   (Inl (OtherError ''sign-out failed''),
    demo_opened @
    [Filter ''workbooks'' ''Sales'' ''Q1'',
     LogInfo ''Here is the resource id for the %s specified: %s'' [S ''workbooks'', S ''wb-1''],
     Invoke ''workbooks'' ''refresh'' ''wb-1'',
     LogInfo (CHR 0x0A # ''The refresh of %s: %s has been triggered.'')
       [S ''workbooks'', S ''wb-1''],
     SignOut])"
  by (simp add: model_defs demo_defs)

subsection \<open>Several matches in the directory\<close>

text \<open>
  C6. When the directory query returns two or more entries, the lookup does not fail:
  it yields the id of the first entry, and \<^verbatim>\<open>execute\<close> goes on with that id alone. What
  it then does and returns is what the trigger and the wait do for the first id; when
  the endpoint has the method, the method is called on the first id.
\<close>

theorem first_match_wins:
  assumes "check_resource_and_method op = None"
      and "open_session w (site_id op) (tableau_conn_id op) = (Inr h, t0)"
      and "endpoints w (resource op) = Some ep"
      and "ep_filter ep (project_name op) (resource_name op) = Inr (i # i' # rest)"
  shows "fst (get_resource_id w op h (project_name op) (resource_name op)) = Inr i
         \<and> execute w op =
             ((case sign_out w of None \<Rightarrow> fst (act_on_resource w op h i) | Some e \<Rightarrow> Inl e),
              t0 @ [Filter (resource op) (project_name op) (resource_name op),
                    LogInfo ''Here is the resource id for the %s specified: %s''
                      [S (resource op), S i]]
                 @ snd (act_on_resource w op h i) @ [SignOut])
         \<and> (\<forall>m. ep_methods ep (method op) = Some m \<longrightarrow>
                Invoke (resource op) (method op) i \<in> set (snd (execute w op)))"
proof -
  note g = get_resource_id_first [OF assms(3,4), of h]
  have b: "with_body w op h =
             (fst (act_on_resource w op h i),
              [Filter (resource op) (project_name op) (resource_name op),
               LogInfo ''Here is the resource id for the %s specified: %s''
                 [S (resource op), S i]] @ snd (act_on_resource w op h i))"
    using g by (simp add: with_body_def split: prod.splits)
  have e: "execute w op =
             ((case sign_out w of None \<Rightarrow> fst (act_on_resource w op h i) | Some e \<Rightarrow> Inl e),
              t0 @ [Filter (resource op) (project_name op) (resource_name op),
                    LogInfo ''Here is the resource id for the %s specified: %s''
                      [S (resource op), S i]]
                 @ snd (act_on_resource w op h i) @ [SignOut])"
    using b by (simp add: execute_in_session [OF assms(1,2)] split: option.splits)
  have m: "Invoke (resource op) (method op) i \<in> set (snd (act_on_resource w op h i))"
    if "ep_methods ep (method op) = Some m" for m
    using that assms(3)
    by (auto simp add: act_on_resource_def trigger_def split: prod.splits sum.splits option.splits)
  show ?thesis
    using g e m by simp
qed

theorem first_match_wins_witness:
  "fst (get_resource_id (demo_world demo_conn [''wb-1'', ''wb-2''] (Inr (Some ''job-9'')) None)
          (demo_op ''workbooks'' ''refresh'' False) demo_hook ''Sales'' ''Q1'') = Inr ''wb-1''
   \<and> fst (execute (demo_world demo_conn [''wb-1'', ''wb-2''] (Inr (Some ''job-9'')) None)
          (demo_op ''workbooks'' ''refresh'' False)) = Inr ''job-9''
   \<and> Invoke ''workbooks'' ''refresh'' ''wb-1''
        \<in> set (snd (execute (demo_world demo_conn [''wb-1'', ''wb-2''] (Inr (Some ''job-9'')) None)
                  (demo_op ''workbooks'' ''refresh'' False)))"
proof -
  let ?w = "demo_world demo_conn [''wb-1'', ''wb-2''] (Inr (Some ''job-9'')) None"
  let ?op = "demo_op ''workbooks'' ''refresh'' False"
  let ?ep = "demo_endpoint [''wb-1'', ''wb-2''] (Inr (Some ''job-9''))"
  have c: "check_resource_and_method ?op = None"
    by (rule demo_check)
  have o: "open_session ?w (site_id ?op) (tableau_conn_id ?op) = (Inr demo_hook, demo_opened)"
    using demo_open_session by (simp add: demo_op_def)
  have e: "endpoints ?w (resource ?op) = Some ?ep"
    by (simp add: demo_world_def demo_op_def)
  have f: "ep_filter ?ep (project_name ?op) (resource_name ?op) = Inr [''wb-1'', ''wb-2'']"
    by (simp add: demo_endpoint_def)
  have m: "ep_methods ?ep (method ?op) = Some (\<lambda>i. Inr (Some ''job-9''))"
    by (simp add: demo_endpoint_def demo_op_def)
  have a: "fst (act_on_resource ?w ?op demo_hook ''wb-1'') = Inr ''job-9''"
    by (simp add: act_on_resource_def trigger_def demo_defs)
  have s: "sign_out ?w = None"
    by (simp add: demo_world_def)
  have p: "project_name ?op = ''Sales''" "resource_name ?op = ''Q1''"
          "resource ?op = ''workbooks''" "method ?op = ''refresh''"
    by (simp_all add: demo_op_def)
  note fm = first_match_wins [OF c o e f]
  have 1: "fst (get_resource_id ?w ?op demo_hook ''Sales'' ''Q1'') = Inr ''wb-1''"
    using fm p by simp
  have 2: "fst (execute ?w ?op) = Inr ''job-9''"
    using fm a s by simp
  have 3: "Invoke ''workbooks'' ''refresh'' ''wb-1'' \<in> set (snd (execute ?w ?op))"
    using fm m p by metis
  show ?thesis
    using 1 2 3 by blast
qed

subsection \<open>A job that fails\<close>

text \<open>
  C7. In a blocking refresh, when waiting for the job raises (the job failed, or the
  server answered with an error while it was polled), \<^verbatim>\<open>execute\<close> fails with that very
  exception, which carries the server's reason (the error the specification calls
  JobFailedError); a \<^verbatim>\<open>ServerResponseError\<close> is logged first. The polls are made
  inside the library's wait; the operator calls that wait once and never again: after it
  come only that log record and the sign-out. Should the sign-out itself raise, its
  exception is the one that leaves \<^verbatim>\<open>execute\<close>.
\<close>

theorem failed_job_raises_once:
  assumes "check_resource_and_method op = None"
      and "open_session w (site_id op) (tableau_conn_id op) = (Inr h, t0)"
      and "get_resource_id w op h (project_name op) (resource_name op) = (Inr rid, t1)"
      and "trigger w op rid = (Inr jid, t2)"
      and "method op = ''refresh''"
      and "blocking_refresh op"
      and "jobs_wait_for_job w jid = Some e"
  shows "execute w op =
           (Inl (case sign_out w of None \<Rightarrow> e | Some e' \<Rightarrow> e'),
            t0 @ t1 @ t2 @ [LogInfo ''Waiting for job...'' [], WaitForJob jid]
               @ (if is_ServerResponseError e then [LogError ''Job failed! %s'' [E e]] else [])
               @ [SignOut])
         \<and> (\<forall>j. WaitForJob j \<notin> set (t0 @ t1 @ t2))"
proof -
  have a: "act_on_resource w op h rid =
             (Inl e, t2 @ [LogInfo ''Waiting for job...'' [], WaitForJob jid]
                @ (if is_ServerResponseError e then [LogError ''Job failed! %s'' [E e]] else []))"
    using assms(4,5,6,7) by (simp add: act_on_resource_def wait_for_job_def)
  have b: "with_body w op h =
             (Inl e, t1 @ t2 @ [LogInfo ''Waiting for job...'' [], WaitForJob jid]
                @ (if is_ServerResponseError e then [LogError ''Job failed! %s'' [E e]] else []))"
    using assms(3) a by (simp add: with_body_def)
  have c: "\<forall>j. WaitForJob j \<notin> set (t0 @ t1 @ t2)"
    using open_session_trace [OF assms(2)] get_resource_id_trace [OF assms(3)]
      trigger_trace [OF assms(4)] by simp
  show ?thesis
    using b c by (simp add: execute_in_session [OF assms(1,2)] split: option.splits)
qed

theorem failed_job_raises_once_witness:
  "execute (demo_world demo_conn [''wb-1''] (Inr (Some ''job-9'')) (Some (OtherError ''job-9 failed: bad extract'')))
       (demo_op ''workbooks'' ''refresh'' True) =
     (Inl (OtherError ''job-9 failed: bad extract''),
      demo_opened @
      [Filter ''workbooks'' ''Sales'' ''Q1'',
       LogInfo ''Here is the resource id for the %s specified: %s'' [S ''workbooks'', S ''wb-1''],
       Invoke ''workbooks'' ''refresh'' ''wb-1'',
       LogInfo (CHR 0x0A # ''The refresh of %s: %s has been triggered.'')
         [S ''workbooks'', S ''wb-1''],
       LogInfo ''Waiting for job...'' [], WaitForJob ''job-9'', SignOut])"
proof -
  let ?w = "demo_world demo_conn [''wb-1''] (Inr (Some ''job-9'')) (Some (OtherError ''job-9 failed: bad extract''))"
  let ?op = "demo_op ''workbooks'' ''refresh'' True"
  have c: "check_resource_and_method ?op = None"
    by (rule demo_check)
  have o: "open_session ?w (site_id ?op) (tableau_conn_id ?op) = (Inr demo_hook, demo_opened)"
    using demo_open_session by (simp add: demo_op_def)
  have g: "get_resource_id ?w ?op demo_hook (project_name ?op) (resource_name ?op) =
             (Inr ''wb-1'',
              [Filter ''workbooks'' ''Sales'' ''Q1'',
               LogInfo ''Here is the resource id for the %s specified: %s''
                 [S ''workbooks'', S ''wb-1'']])"
    by (simp add: get_resource_id_def demo_defs)
  have t: "trigger ?w ?op ''wb-1'' =
             (Inr ''job-9'',
              [Invoke ''workbooks'' ''refresh'' ''wb-1'',
               LogInfo (CHR 0x0A # ''The refresh of %s: %s has been triggered.'')
                 [S ''workbooks'', S ''wb-1'']])"
    by (simp add: trigger_def demo_defs)
  have m: "method ?op = ''refresh''" and b: "blocking_refresh ?op"
    by (simp_all add: demo_op_def)
  have j: "jobs_wait_for_job ?w ''job-9'' = Some (OtherError ''job-9 failed: bad extract'')"
    by (simp add: demo_world_def)
  have s: "sign_out ?w = None"
    by (simp add: demo_world_def)
  show ?thesis
    using failed_job_raises_once [OF c o g t m b j] s by simp
qed

text \<open>
  C7, as worded, fails when the sign-out raises: waiting for the job raised the job's
  failure, yet the exception that leaves \<^verbatim>\<open>execute\<close> is the sign-out's.
\<close>

theorem failed_job_counterexample:
  "execute
     ((demo_world demo_conn [''wb-1''] (Inr (Some ''job-9''))
         (Some (OtherError ''job-9 failed: bad extract'')))
        \<lparr>sign_out := Some (OtherError ''sign-out failed'')\<rparr>)
     (demo_op ''workbooks'' ''refresh'' True) =
   (Inl (OtherError ''sign-out failed''),
    demo_opened @
    [Filter ''workbooks'' ''Sales'' ''Q1'',
     LogInfo ''Here is the resource id for the %s specified: %s'' [S ''workbooks'', S ''wb-1''],
     Invoke ''workbooks'' ''refresh'' ''wb-1'',
     LogInfo (CHR 0x0A # ''The refresh of %s: %s has been triggered.'')
       [S ''workbooks'', S ''wb-1''],
     LogInfo ''Waiting for job...'' [], WaitForJob ''job-9'', SignOut])"
  by (simp add: model_defs demo_defs)

subsection \<open>A trigger that yields no job\<close>

text \<open>
  C8. When the refresh call yields no job id, \<^verbatim>\<open>execute\<close> fails and swallows nothing.
  An exception raised by the call leaves \<^verbatim>\<open>execute\<close> unchanged (a
  \<^verbatim>\<open>ServerResponseError\<close> keeps the server's code and message); it is logged where it is
  caught only if it is a \<^verbatim>\<open>ServerResponseError\<close>, the one class the operator catches.
  When the call returns an object without \<^verbatim>\<open>id\<close>, the refresh is logged as triggered
  and reading \<^verbatim>\<open>job.id\<close> raises \<^verbatim>\<open>AttributeError\<close>. The session is closed in every
  case; should the sign-out itself raise, its exception is the one that leaves
  \<^verbatim>\<open>execute\<close>.
\<close>

theorem failed_trigger_raises:
  assumes "check_resource_and_method op = None"
      and "open_session w (site_id op) (tableau_conn_id op) = (Inr h, t0)"
      and "get_resource_id w op h (project_name op) (resource_name op) = (Inr rid, t1)"
      and "endpoints w (resource op) = Some ep"
      and "ep_methods ep (method op) = Some m"
  shows "(\<forall>e. m rid = Inl e \<longrightarrow>
            execute w op =
              (Inl (case sign_out w of None \<Rightarrow> e | Some e' \<Rightarrow> e'),
               t0 @ t1 @ [Invoke (resource op) (method op) rid]
                  @ (if is_ServerResponseError e then [LogError ''Refresh failed! %s'' [E e]]
                     else [])
                  @ [SignOut]))
         \<and> (m rid = Inr None \<longrightarrow>
            execute w op =
              (Inl (case sign_out w of None \<Rightarrow> AttributeError ''id'' | Some e' \<Rightarrow> e'),
               t0 @ t1 @ [Invoke (resource op) (method op) rid,
                          LogInfo (CHR 0x0A # ''The refresh of %s: %s has been triggered.'')
                            [S (resource op), S rid],
                          SignOut]))"
proof (intro conjI allI impI)
  fix e
  assume r: "m rid = Inl e"
  have t: "trigger w op rid =
             (Inl e, [Invoke (resource op) (method op) rid]
                @ (if is_ServerResponseError e then [LogError ''Refresh failed! %s'' [E e]]
                   else []))"
    using assms(4,5) r by (simp add: trigger_def)
  have b: "with_body w op h =
             (Inl e, t1 @ [Invoke (resource op) (method op) rid]
                @ (if is_ServerResponseError e then [LogError ''Refresh failed! %s'' [E e]]
                   else []))"
    using assms(3) t by (simp add: with_body_def act_on_resource_def)
  show "execute w op =
          (Inl (case sign_out w of None \<Rightarrow> e | Some e' \<Rightarrow> e'),
           t0 @ t1 @ [Invoke (resource op) (method op) rid]
              @ (if is_ServerResponseError e then [LogError ''Refresh failed! %s'' [E e]]
                 else [])
              @ [SignOut])"
    using b by (simp add: execute_in_session [OF assms(1,2)] split: option.splits)
next
  assume r: "m rid = Inr None"
  have t: "trigger w op rid =
             (Inl (AttributeError ''id''),
              [Invoke (resource op) (method op) rid,
               LogInfo (CHR 0x0A # ''The refresh of %s: %s has been triggered.'')
                 [S (resource op), S rid]])"
    using assms(4,5) r by (simp add: trigger_def)
  have b: "with_body w op h =
             (Inl (AttributeError ''id''),
              t1 @ [Invoke (resource op) (method op) rid,
                    LogInfo (CHR 0x0A # ''The refresh of %s: %s has been triggered.'')
                      [S (resource op), S rid]])"
    using assms(3) t by (simp add: with_body_def act_on_resource_def)
  show "execute w op =
          (Inl (case sign_out w of None \<Rightarrow> AttributeError ''id'' | Some e' \<Rightarrow> e'),
           t0 @ t1 @ [Invoke (resource op) (method op) rid,
                      LogInfo (CHR 0x0A # ''The refresh of %s: %s has been triggered.'')
                        [S (resource op), S rid],
                      SignOut])"
    using b by (simp add: execute_in_session [OF assms(1,2)] split: option.splits)
qed

theorem failed_trigger_raises_witness:
  "execute (demo_world demo_conn [''wb-1''] (Inl (ServerResponseError ''403'' ''Forbidden'')) None)
       (demo_op ''workbooks'' ''refresh'' True) =
     (Inl (ServerResponseError ''403'' ''Forbidden''),
      demo_opened @
      [Filter ''workbooks'' ''Sales'' ''Q1'',
       LogInfo ''Here is the resource id for the %s specified: %s'' [S ''workbooks'', S ''wb-1''],
       Invoke ''workbooks'' ''refresh'' ''wb-1'',
       LogError ''Refresh failed! %s'' [E (ServerResponseError ''403'' ''Forbidden'')],
       SignOut])
   \<and> execute (demo_world demo_conn [''wb-1''] (Inr None) None)
       (demo_op ''workbooks'' ''refresh'' True) =
     (Inl (AttributeError ''id''),
      demo_opened @
      [Filter ''workbooks'' ''Sales'' ''Q1'',
       LogInfo ''Here is the resource id for the %s specified: %s'' [S ''workbooks'', S ''wb-1''],
       Invoke ''workbooks'' ''refresh'' ''wb-1'',
       LogInfo (CHR 0x0A # ''The refresh of %s: %s has been triggered.'')
         [S ''workbooks'', S ''wb-1''],
       SignOut])"
proof -
  let ?w = "demo_world demo_conn [''wb-1''] (Inl (ServerResponseError ''403'' ''Forbidden'')) None"
  let ?op = "demo_op ''workbooks'' ''refresh'' True"
  let ?ep = "demo_endpoint [''wb-1''] (Inl (ServerResponseError ''403'' ''Forbidden''))"
  let ?m = "\<lambda>i::string. Inl (ServerResponseError ''403'' ''Forbidden'') :: exn + string option"
  have c: "check_resource_and_method ?op = None"
    by (rule demo_check)
  have o: "open_session ?w (site_id ?op) (tableau_conn_id ?op) = (Inr demo_hook, demo_opened)"
    using demo_open_session by (simp add: demo_op_def)
  have g: "get_resource_id ?w ?op demo_hook (project_name ?op) (resource_name ?op) =
             (Inr ''wb-1'',
              [Filter ''workbooks'' ''Sales'' ''Q1'',
               LogInfo ''Here is the resource id for the %s specified: %s''
                 [S ''workbooks'', S ''wb-1'']])"
    by (simp add: get_resource_id_def demo_defs)
  have e: "endpoints ?w (resource ?op) = Some ?ep"
    by (simp add: demo_world_def demo_op_def)
  have m: "ep_methods ?ep (method ?op) = Some ?m"
    by (simp add: demo_endpoint_def demo_op_def)
  have r: "?m ''wb-1'' = Inl (ServerResponseError ''403'' ''Forbidden'')"
    by simp
  have s: "sign_out ?w = None"
    by (simp add: demo_world_def)
  have p: "resource ?op = ''workbooks''" "method ?op = ''refresh''"
    by (simp_all add: demo_op_def)
  have "execute ?w ?op =
          (Inl (case sign_out ?w of None \<Rightarrow> ServerResponseError ''403'' ''Forbidden'' | Some e' \<Rightarrow> e'),
           demo_opened @ [Filter ''workbooks'' ''Sales'' ''Q1'',
               LogInfo ''Here is the resource id for the %s specified: %s''
                 [S ''workbooks'', S ''wb-1'']]
              @ [Invoke (resource ?op) (method ?op) ''wb-1'']
              @ (if is_ServerResponseError (ServerResponseError ''403'' ''Forbidden'')
                 then [LogError ''Refresh failed! %s'' [E (ServerResponseError ''403'' ''Forbidden'')]]
                 else [])
              @ [SignOut])"
    using failed_trigger_raises [OF c o g e m] r by blast
  then have 1: "execute ?w ?op =
     (Inl (ServerResponseError ''403'' ''Forbidden''),
      demo_opened @
      [Filter ''workbooks'' ''Sales'' ''Q1'',
       LogInfo ''Here is the resource id for the %s specified: %s'' [S ''workbooks'', S ''wb-1''],
       Invoke ''workbooks'' ''refresh'' ''wb-1'',
       LogError ''Refresh failed! %s'' [E (ServerResponseError ''403'' ''Forbidden'')],
       SignOut])"
    using s p by simp
  let ?w' = "demo_world demo_conn [''wb-1''] (Inr None) None"
  let ?ep' = "demo_endpoint [''wb-1''] (Inr None)"
  let ?m' = "\<lambda>i::string. Inr None :: exn + string option"
  have o': "open_session ?w' (site_id ?op) (tableau_conn_id ?op) = (Inr demo_hook, demo_opened)"
    using demo_open_session by (simp add: demo_op_def)
  have g': "get_resource_id ?w' ?op demo_hook (project_name ?op) (resource_name ?op) =
             (Inr ''wb-1'',
              [Filter ''workbooks'' ''Sales'' ''Q1'',
               LogInfo ''Here is the resource id for the %s specified: %s''
                 [S ''workbooks'', S ''wb-1'']])"
    by (simp add: get_resource_id_def demo_defs)
  have e': "endpoints ?w' (resource ?op) = Some ?ep'"
    by (simp add: demo_world_def demo_op_def)
  have m': "ep_methods ?ep' (method ?op) = Some ?m'"
    by (simp add: demo_endpoint_def demo_op_def)
  have r': "?m' ''wb-1'' = Inr None"
    by simp
  have s': "sign_out ?w' = None"
    by (simp add: demo_world_def)
  have "execute ?w' ?op =
          (Inl (case sign_out ?w' of None \<Rightarrow> AttributeError ''id'' | Some e' \<Rightarrow> e'),
           demo_opened @ [Filter ''workbooks'' ''Sales'' ''Q1'',
               LogInfo ''Here is the resource id for the %s specified: %s''
                 [S ''workbooks'', S ''wb-1'']]
              @ [Invoke (resource ?op) (method ?op) ''wb-1'',
                 LogInfo (CHR 0x0A # ''The refresh of %s: %s has been triggered.'')
                   [S (resource ?op), S ''wb-1''],
                 SignOut])"
    using failed_trigger_raises [OF c o' g' e' m'] r' by blast
  then have 2: "execute ?w' ?op =
     (Inl (AttributeError ''id''),
      demo_opened @
      [Filter ''workbooks'' ''Sales'' ''Q1'',
       LogInfo ''Here is the resource id for the %s specified: %s'' [S ''workbooks'', S ''wb-1''],
       Invoke ''workbooks'' ''refresh'' ''wb-1'',
       LogInfo (CHR 0x0A # ''The refresh of %s: %s has been triggered.'')
         [S ''workbooks'', S ''wb-1''],
       SignOut])"
    using s' p by simp
  show ?thesis
    using 1 2 by blast
qed

text \<open>
  The claim as worded fails in three ways. A rejection that surfaces as another
  exception class is raised but never logged; a rejection for which the call returns
  \<^verbatim>\<open>None\<close> is logged as a triggered refresh and ends in \<^verbatim>\<open>AttributeError\<close>; and when
  the sign-out raises, the server's error does not reach the caller.
\<close>

theorem rejected_trigger_counterexample:
  "execute (demo_world demo_conn [''wb-1''] (Inl (OtherError ''refresh rejected'')) None)
       (demo_op ''workbooks'' ''refresh'' True) =
     (Inl (OtherError ''refresh rejected''),
      demo_opened @
      [Filter ''workbooks'' ''Sales'' ''Q1'',
       LogInfo ''Here is the resource id for the %s specified: %s'' [S ''workbooks'', S ''wb-1''],
       Invoke ''workbooks'' ''refresh'' ''wb-1'',
       SignOut])
   \<and> execute (demo_world demo_conn [''wb-1''] (Inr None) None)
       (demo_op ''workbooks'' ''refresh'' True) =
     (Inl (AttributeError ''id''),
      demo_opened @
      [Filter ''workbooks'' ''Sales'' ''Q1'',
       LogInfo ''Here is the resource id for the %s specified: %s'' [S ''workbooks'', S ''wb-1''],
       Invoke ''workbooks'' ''refresh'' ''wb-1'',
       LogInfo (CHR 0x0A # ''The refresh of %s: %s has been triggered.'')
         [S ''workbooks'', S ''wb-1''],
       SignOut])
   \<and> fst (execute
       ((demo_world demo_conn [''wb-1''] (Inl (ServerResponseError ''403'' ''Forbidden'')) None)
          \<lparr>sign_out := Some (OtherError ''sign-out failed'')\<rparr>)
       (demo_op ''workbooks'' ''refresh'' True)) =
     Inl (OtherError ''sign-out failed'')"
  by (simp add: model_defs demo_defs)

subsection \<open>The checks before the session\<close>

lemma check_resource_and_method_iff:
  "check_resource_and_method op = None \<longleftrightarrow>
     (resource op = ''datasources'' \<or> resource op = ''workbooks'')
     \<and> (\<exists>p s. ''refresh'' = p @ method op @ s)"
  by (simp add: check_resource_and_method_def available_resources_def str_contains_iff)

lemma unknown_resource_rejected:
  assumes "resource op \<noteq> ''datasources''" and "resource op \<noteq> ''workbooks''"
  shows "execute w op =
           (Inl (AirflowException
              ''Resource not found! Available Resources: {'datasources': 'refresh', 'workbooks': 'refresh'}''),
            [])"
  using assms
  by (simp add: execute_def check_resource_and_method_def available_resources_def
      repr_dict_def repr_str_def)

lemma unknown_method_rejected:
  assumes "resource op = ''datasources'' \<or> resource op = ''workbooks''"
      and "\<not> (\<exists>p s. ''refresh'' = p @ method op @ s)"
  shows "execute w op =
           (Inl (AirflowException
              (''Method not found! Available methods for '' @ resource op @ '': refresh'')),
            [])"
  using assms
  by (auto simp add: execute_def check_resource_and_method_def available_resources_def
      str_contains_iff)

lemma no_session_no_sign_out:
  assumes "check_resource_and_method op \<noteq> None
           \<or> (\<exists>e t. open_session w (site_id op) (tableau_conn_id op) = (Inl e, t))"
  shows "SignOut \<notin> set (snd (execute w op))"
  using assms open_session_trace [of w "site_id op" "tableau_conn_id op"]
  by (auto simp add: execute_def split: option.splits)

text \<open>
  C3. A method that is not \<^verbatim>\<open>refresh\<close> but occurs inside that word passes both checks.
  With the resource \<^verbatim>\<open>workbooks\<close> and the method \<^verbatim>\<open>fresh\<close>, \<^verbatim>\<open>execute\<close> raises no
  \<^verbatim>\<open>AirflowException\<close>: it opens the session, looks the resource up, and fails only when
  the endpoint has no attribute of that name.
\<close>

theorem substring_method_reaches_session:
  "check_resource_and_method (demo_op ''workbooks'' ''fresh'' True) = None
   \<and> execute (demo_world demo_conn [''wb-1''] (Inr (Some ''job-9'')) None)
         (demo_op ''workbooks'' ''fresh'' True) =
       (Inl (AttributeError ''fresh''),
        [GetConnection ''tableau_default'', ServerInit ''tableau.example'',
         SignIn ''airflow'' ''secret'' [],
         Filter ''workbooks'' ''Sales'' ''Q1'',
         LogInfo ''Here is the resource id for the %s specified: %s''
           [S ''workbooks'', S ''wb-1''],
         SignOut])"
  by (simp add: model_defs demo_defs)

subsection \<open>Methods inside the word refresh\<close>

text \<open>
  C10. The check of the method is Python's \<^verbatim>\<open>in\<close> between two strings, and the string
  stored for both resources is \<^verbatim>\<open>refresh\<close>: every method that occurs in \<^verbatim>\<open>refresh\<close> as
  a contiguous run of characters (the empty string too) passes the checks. The wait is
  guarded by equality with \<^verbatim>\<open>refresh\<close>: for any such method other than \<^verbatim>\<open>refresh\<close>
  itself, no execution waits for a job.
\<close>

theorem substring_method_accepted_never_waited:
  assumes "resource op = ''datasources'' \<or> resource op = ''workbooks''"
      and "''refresh'' = p @ method op @ s"
  shows "check_resource_and_method op = None
         \<and> (method op \<noteq> ''refresh'' \<longrightarrow> (\<forall>j. WaitForJob j \<notin> set (snd (execute w op))))"
proof -
  have "\<exists>p s. ''refresh'' = p @ method op @ s"
    using assms(2) by blast
  then have "check_resource_and_method op = None"
    using assms(1) by (simp add: check_resource_and_method_iff)
  moreover have "\<forall>j. WaitForJob j \<notin> set (snd (execute w op))" if "method op \<noteq> ''refresh''"
    using that by (simp add: execute_no_wait_trace)
  ultimately show ?thesis by blast
qed

theorem substring_method_accepted_never_waited_witness:
  "check_resource_and_method (demo_op ''datasources'' ''fresh'' True) = None
   \<and> (\<forall>j. WaitForJob j
          \<notin> set (snd (execute (demo_world demo_conn [''ds-1''] (Inr (Some ''job-9'')) None)
                        (demo_op ''datasources'' ''fresh'' True))))"
proof -
  let ?op = "demo_op ''datasources'' ''fresh'' True"
  have r: "resource ?op = ''datasources'' \<or> resource ?op = ''workbooks''"
    by (simp add: demo_op_def)
  have m: "''refresh'' = ''re'' @ method ?op @ []"
    by (simp add: demo_op_def)
  have n: "method ?op \<noteq> ''refresh''"
    by (simp add: demo_op_def)
  show ?thesis
    using substring_method_accepted_never_waited [OF r m] n by blast
qed

subsection \<open>Missing credentials\<close>

text \<open>
  C4. When the stored connection lacks \<^verbatim>\<open>token_name\<close> or \<^verbatim>\<open>personal_access_token\<close>,
  opening the session fails before any sign-in request is made. By then the hook has
  looked the connection up and constructed \<^verbatim>\<open>Server(host, use_server_version=True)\<close>:
  if that constructor raises, its exception is the failure; otherwise the failure is the
  \<^verbatim>\<open>KeyError\<close> of the first missing field (the error the specification calls
  ConfigurationError), raised while the arguments of the sign-in are built.
\<close>

theorem missing_credentials_fail_before_sign_in:
  assumes "get_connection w cid = Inr c"
      and "extra_dejson c ''token_name'' = None \<or> extra_dejson c ''personal_access_token'' = None"
  shows "open_session w sid cid =
           (Inl (case Server w (host c) of
                   Some e \<Rightarrow> e
                 | None \<Rightarrow>
                     KeyError (if extra_dejson c ''token_name'' = None then ''token_name''
                               else ''personal_access_token'')),
            [GetConnection cid, ServerInit (host c)])"
  using assms
  by (auto simp add: open_session_def hook_init_def hook_enter_def get_conn_def
      split: option.splits)

theorem missing_credentials_fail_before_sign_in_witness:
  "open_session
     (demo_world (demo_conn\<lparr>extra_dejson := [''token_name'' \<mapsto> ''airflow'']\<rparr>) [''wb-1'']
        (Inr (Some ''job-9'')) None)
     None ''tableau_default'' =
   (Inl (KeyError ''personal_access_token''),
    [GetConnection ''tableau_default'', ServerInit ''tableau.example''])"
proof -
  let ?c = "demo_conn\<lparr>extra_dejson := [''token_name'' \<mapsto> ''airflow'']\<rparr>"
  let ?w = "demo_world ?c [''wb-1''] (Inr (Some ''job-9'')) None"
  have g: "get_connection ?w ''tableau_default'' = Inr ?c"
    by (simp add: demo_world_def)
  have k: "extra_dejson ?c ''token_name'' = None \<or> extra_dejson ?c ''personal_access_token'' = None"
    by simp
  have s: "Server ?w (host ?c) = None"
    by (simp add: demo_world_def)
  have t: "extra_dejson ?c ''token_name'' \<noteq> None" and h: "host ?c = ''tableau.example''"
    by (simp_all add: demo_conn_def)
  show ?thesis
    using missing_credentials_fail_before_sign_in [OF g k, of None] s t h by simp
qed

text \<open>
  The claim as worded fails: the \<^verbatim>\<open>Server\<close> object, which is told to use the server's
  version, is constructed for the host before the missing field is noticed, and when
  that constructor raises, the failure is not the error of the missing field.
\<close>

theorem missing_credentials_counterexample:
  "open_session
     (demo_world (demo_conn\<lparr>extra_dejson := Map.empty\<rparr>) [''wb-1''] (Inr (Some ''job-9'')) None)
     None ''tableau_default'' =
   (Inl (KeyError ''token_name''),
    [GetConnection ''tableau_default'', ServerInit ''tableau.example''])
   \<and> open_session
     ((demo_world (demo_conn\<lparr>extra_dejson := Map.empty\<rparr>) [''wb-1''] (Inr (Some ''job-9'')) None)
        \<lparr>Server := \<lambda>h. Some (OtherError ''host unreachable'')\<rparr>)
     None ''tableau_default'' =
   (Inl (OtherError ''host unreachable''),
    [GetConnection ''tableau_default'', ServerInit ''tableau.example''])"
  by (simp add: open_session_def hook_init_def hook_enter_def get_conn_def demo_defs)

subsection \<open>A job that succeeds\<close>

lemma blocking_success_returns_job_id:
  assumes "check_resource_and_method op = None"
      and "open_session w (site_id op) (tableau_conn_id op) = (Inr h, t0)"
      and "get_resource_id w op h (project_name op) (resource_name op) = (Inr rid, t1)"
      and "trigger w op rid = (Inr jid, t2)"
      and "method op = ''refresh''"
      and "blocking_refresh op"
      and "jobs_wait_for_job w jid = None"
  shows "execute w op =
           ((case sign_out w of None \<Rightarrow> Inr jid | Some e \<Rightarrow> Inl e),
            t0 @ t1 @ t2 @ [LogInfo ''Waiting for job...'' [], WaitForJob jid,
                            LogInfo ''Job finished succesfully'' [], SignOut])"
proof -
  have a: "act_on_resource w op h rid =
             (Inr jid, t2 @ [LogInfo ''Waiting for job...'' [], WaitForJob jid,
                             LogInfo ''Job finished succesfully'' []])"
    using assms(4,5,6,7) by (simp add: act_on_resource_def wait_for_job_def)
  have b: "with_body w op h =
             (Inr jid, t1 @ t2 @ [LogInfo ''Waiting for job...'' [], WaitForJob jid,
                                  LogInfo ''Job finished succesfully'' []])"
    using assms(3) a by (simp add: with_body_def)
  show ?thesis
    using b by (simp add: execute_in_session [OF assms(1,2)] split: option.splits)
qed

end
